theory Spec2Isabelle
  imports Complex_Main
begin

section \<open>Crop editor geometry (src/components/MediaCapture.tsx)\<close>

subsection \<open>Numbers\<close>

text \<open>
  JavaScript numbers are IEEE binary64 doubles. A finite double is modelled by the real
  number it denotes, and every arithmetic operation of the source by the exact operation
  followed by rounding to the nearest double, ties to the even significand. Comparisons,
  \<^verbatim>\<open>Math.min\<close> and \<^verbatim>\<open>Math.max\<close> are exact on doubles. NaN and the infinities are not
  values of the model: a result of magnitude \<open>2^1024\<close> or more and a division by zero
  are outside it.
\<close>

definition pow2 :: "int \<Rightarrow> real" where
  "pow2 e = (if 0 \<le> e then 2 ^ nat e else 1 / 2 ^ nat (- e))"

text \<open>
  The binary exponent of a positive number, \<open>pow2 e \<le> a < pow2 (e + 1)\<close>, searched from 0
  in steps of one; 2200 steps cover every double.
\<close>

fun scale :: "nat \<Rightarrow> real \<Rightarrow> int \<Rightarrow> int" where
  "scale 0 a e = e"
| "scale (Suc n) a e =
     (if a < pow2 e then scale n a (e - 1)
      else if pow2 (e + 1) \<le> a then scale n a (e + 1)
      else e)"

definition exponent :: "real \<Rightarrow> int" where
  "exponent a = scale 2200 a 0"

definition round_half_even :: "real \<Rightarrow> int" where
  "round_half_even q =
     (let f = \<lfloor>q\<rfloor>; d = q - of_int f
      in if d < 1 / 2 then f else if 1 / 2 < d then f + 1 else if even f then f else f + 1)"

text \<open>
  Rounding to binary64: 53 significant bits, and the spacing \<open>2^-1074\<close> of the subnormal
  numbers below \<open>2^-1022\<close>.
\<close>

definition fl :: "real \<Rightarrow> real" where
  "fl x =
     (if x = 0 then 0
      else (let e = max (exponent \<bar>x\<bar>) (- 1022) - 52
            in of_int (round_half_even (x / pow2 e)) * pow2 e))"

text \<open>The operators \<^verbatim>\<open>+\<close>, \<^verbatim>\<open>-\<close>, \<^verbatim>\<open>*\<close> and \<^verbatim>\<open>/\<close> of the source.\<close>

definition fadd :: "real \<Rightarrow> real \<Rightarrow> real" where
  "fadd a b = fl (a + b)"

definition fsub :: "real \<Rightarrow> real \<Rightarrow> real" where
  "fsub a b = fl (a - b)"

definition fmul :: "real \<Rightarrow> real \<Rightarrow> real" where
  "fmul a b = fl (a * b)"

definition fdiv :: "real \<Rightarrow> real \<Rightarrow> real" where
  "fdiv a b = fl (a / b)"

subsection \<open>clamp\<close>

text \<open>
  \<^verbatim>\<open>const clamp = (val, min, max) => Math.min(Math.max(val, min), max);\<close>
\<close>

definition clamp :: "real \<Rightarrow> real \<Rightarrow> real \<Rightarrow> real" where
  "clamp val mn mx = min (max val mn) mx"

subsection \<open>The crop rectangle and the pointer interaction\<close>

text \<open>The crop state \<^verbatim>\<open>{ x, y, width, height }\<close>, in percent of the displayed image.\<close>

record crop =
  crop_x :: real
  crop_y :: real
  crop_width :: real
  crop_height :: real

text \<open>The initial state, \<^verbatim>\<open>useState({ x: 0, y: 0, width: 100, height: 100 })\<close>.\<close>

definition initialCrop :: crop where
  "initialCrop = \<lparr>crop_x = 0, crop_y = 0, crop_width = 100, crop_height = 100\<rparr>"

text \<open>The handle of a gesture, \<^verbatim>\<open>'move' | 'nw' | 'ne' | 'sw' | 'se'\<close>, with its string.\<close>

datatype drag_mode = Move | NW | NE | SW | SE

fun modeName :: "drag_mode \<Rightarrow> string" where
  "modeName Move = ''move''"
| "modeName NW = ''nw''"
| "modeName NE = ''ne''"
| "modeName SW = ''sw''"
| "modeName SE = ''se''"

text \<open>\<^verbatim>\<open>mode.includes(c)\<close> for a one-character string \<open>c\<close>.\<close>

definition mode_includes :: "drag_mode \<Rightarrow> char \<Rightarrow> bool" where
  "mode_includes m c = (c \<in> set (modeName m))"

text \<open>\<^verbatim>\<open>interactionRef.current\<close>, when it is not null.\<close>

record interaction =
  startX :: real
  startY :: real
  startCrop :: crop
  mode :: drag_mode

text \<open>
  \<^verbatim>\<open>onPointerDown\<close> of \<^verbatim>\<open>createHandler(mode)\<close>: the interaction it stores for a pointer
  at \<^verbatim>\<open>(clientX, clientY)\<close> when the crop state is \<open>cur\<close>.
\<close>

definition onPointerDown :: "drag_mode \<Rightarrow> real \<Rightarrow> real \<Rightarrow> crop \<Rightarrow> interaction" where
  "onPointerDown m clientX clientY cur =
     \<lparr>startX = clientX, startY = clientY, startCrop = cur, mode = m\<rparr>"

text \<open>The part of \<^verbatim>\<open>imgRef.current.getBoundingClientRect()\<close> the handler reads.\<close>

record bounding_rect =
  rect_width :: real
  rect_height :: real

text \<open>
  The body of \<^verbatim>\<open>handlePointerMove\<close> from \<^verbatim>\<open>let newCrop = { ...startCrop }\<close> up to
  \<^verbatim>\<open>setCrop(newCrop)\<close>: the rectangle computed from the snapshot, the handle and the
  deltas in percent. The four resize rules run in the source's order (n, s, w, e), each
  on the rectangle the previous one left, and each reads the snapshot's fields.
\<close>

definition resize_n :: "crop \<Rightarrow> real \<Rightarrow> real \<Rightarrow> crop \<Rightarrow> crop" where
  "resize_n sc minSize deltaY newCrop =
     (let maxY = fsub (fadd (crop_y sc) (crop_height sc)) minSize;
          newY = clamp (fadd (crop_y sc) deltaY) 0 maxY
      in newCrop\<lparr>crop_y := newY,
                 crop_height := fadd (crop_height sc) (fsub (crop_y sc) newY)\<rparr>)"

definition resize_s :: "crop \<Rightarrow> real \<Rightarrow> real \<Rightarrow> crop \<Rightarrow> crop" where
  "resize_s sc minSize deltaY newCrop =
     (let maxHeight = fsub 100 (crop_y sc)
      in newCrop\<lparr>crop_height := clamp (fadd (crop_height sc) deltaY) minSize maxHeight\<rparr>)"

definition resize_w :: "crop \<Rightarrow> real \<Rightarrow> real \<Rightarrow> crop \<Rightarrow> crop" where
  "resize_w sc minSize deltaX newCrop =
     (let maxX = fsub (fadd (crop_x sc) (crop_width sc)) minSize;
          newX = clamp (fadd (crop_x sc) deltaX) 0 maxX
      in newCrop\<lparr>crop_x := newX,
                 crop_width := fadd (crop_width sc) (fsub (crop_x sc) newX)\<rparr>)"

definition resize_e :: "crop \<Rightarrow> real \<Rightarrow> real \<Rightarrow> crop \<Rightarrow> crop" where
  "resize_e sc minSize deltaX newCrop =
     (let maxWidth = fsub 100 (crop_x sc)
      in newCrop\<lparr>crop_width := clamp (fadd (crop_width sc) deltaX) minSize maxWidth\<rparr>)"

definition computeCrop :: "crop \<Rightarrow> drag_mode \<Rightarrow> real \<Rightarrow> real \<Rightarrow> crop" where
  "computeCrop sc m deltaX deltaY =
     (if m = Move then
        sc\<lparr>crop_x := clamp (fadd (crop_x sc) deltaX) 0 (fsub 100 (crop_width sc)),
           crop_y := clamp (fadd (crop_y sc) deltaY) 0 (fsub 100 (crop_height sc))\<rparr>
      else
        (let minSize = 10;
             c1 = (if mode_includes m CHR ''n'' then resize_n sc minSize deltaY sc else sc);
             c2 = (if mode_includes m CHR ''s'' then resize_s sc minSize deltaY c1 else c1);
             c3 = (if mode_includes m CHR ''w'' then resize_w sc minSize deltaX c2 else c2);
             c4 = (if mode_includes m CHR ''e'' then resize_e sc minSize deltaX c3 else c3)
         in c4))"

text \<open>
  \<^verbatim>\<open>handlePointerMove\<close> as a function of the interaction reference, the image's
  bounding box (\<open>None\<close> when \<^verbatim>\<open>imgRef.current\<close> is null), the event's client
  coordinates and the current crop state; it returns the crop state after the event.
  The two early returns leave the state as it was.
\<close>

definition handlePointerMove ::
  "interaction option \<Rightarrow> bounding_rect option \<Rightarrow> real \<Rightarrow> real \<Rightarrow> crop \<Rightarrow> crop" where
  "handlePointerMove interactionRef imgRect clientX clientY cur =
     (case interactionRef of
        None \<Rightarrow> cur
      | Some i \<Rightarrow>
          (case imgRect of
             None \<Rightarrow> cur
           | Some rect \<Rightarrow>
               if rect_width rect = 0 \<or> rect_height rect = 0 then cur
               else
                 (let deltaX = fmul (fdiv (fsub clientX (startX i)) (rect_width rect)) 100;
                      deltaY = fmul (fdiv (fsub clientY (startY i)) (rect_height rect)) 100
                  in computeCrop (startCrop i) (mode i) deltaX deltaY)))"

text \<open>The four bounds of the spec's data model, and the minimum size.\<close>

definition in_bounds :: "crop \<Rightarrow> bool" where
  "in_bounds c \<longleftrightarrow>
     0 \<le> crop_x c \<and> 0 \<le> crop_y c \<and>
     crop_x c + crop_width c \<le> 100 \<and> crop_y c + crop_height c \<le> 100"

definition min_sized :: "crop \<Rightarrow> bool" where
  "min_sized c \<longleftrightarrow> 10 \<le> crop_width c \<and> 10 \<le> crop_height c"

subsection \<open>Saving the crop\<close>

text \<open>The two properties of the image element that \<^verbatim>\<open>handleSave\<close> reads.\<close>

record image =
  naturalWidth :: nat
  naturalHeight :: nat

text \<open>
  \<^verbatim>\<open>canvas.width = pixelW\<close> assigns a number to an attribute of IDL type
  \<^verbatim>\<open>unsigned long\<close>. The source does no rounding of its own; the conversion is the
  platform's: the number is truncated toward zero and taken modulo \<open>2^32\<close>, and the
  reflected attribute falls back to its default (300 for the width, 150 for the height)
  when the result is above \<open>2^31 - 1\<close>.
\<close>

definition toUnsignedLong :: "real \<Rightarrow> nat" where
  "toUnsignedLong v = nat ((if v < 0 then - \<lfloor>- v\<rfloor> else \<lfloor>v\<rfloor>) mod 2 ^ 32)"

definition setCanvasDim :: "nat \<Rightarrow> real \<Rightarrow> nat" where
  "setCanvasDim dflt v = (let n = toUnsignedLong v in if n \<le> 2147483647 then n else dflt)"

text \<open>
  What \<^verbatim>\<open>handleSave\<close> hands to \<^verbatim>\<open>onSave\<close>: the size of the canvas, the source
  rectangle passed to \<^verbatim>\<open>drawImage\<close>, and the arguments of \<^verbatim>\<open>toBlob\<close>. \<open>None\<close> stands
  for the two early returns (no image element, no 2d context) and for the null blob
  that \<^verbatim>\<open>toBlob\<close> gives for a canvas without pixels, on which \<^verbatim>\<open>if (blob) onSave(blob)\<close>
  does nothing.
\<close>

record raster =
  canvas_width :: nat
  canvas_height :: nat
  src_x :: real
  src_y :: real
  src_w :: real
  src_h :: real
  mime :: string
  quality :: real

definition handleSave :: "image option \<Rightarrow> bool \<Rightarrow> crop \<Rightarrow> raster option" where
  "handleSave imgRef hasContext c =
     (case imgRef of
        None \<Rightarrow> None
      | Some img \<Rightarrow>
          (let scaleX = fdiv (real (naturalWidth img)) 100;
               scaleY = fdiv (real (naturalHeight img)) 100;
               pixelX = fmul (crop_x c) scaleX;
               pixelY = fmul (crop_y c) scaleY;
               pixelW = fmul (crop_width c) scaleX;
               pixelH = fmul (crop_height c) scaleY;
               w = setCanvasDim 300 pixelW;
               h = setCanvasDim 150 pixelH
           in if \<not> hasContext then None
              else if w = 0 \<or> h = 0 then None
              else Some \<lparr>canvas_width = w, canvas_height = h,
                         src_x = pixelX, src_y = pixelY, src_w = pixelW, src_h = pixelH,
                         mime = ''image/jpeg'', quality = fl 0.95\<rparr>))"

section \<open>The capture component (src/components/MediaCapture.tsx)\<close>

subsection \<open>Data\<close>

text \<open>\<^verbatim>\<open>MediaType\<close> of the types module, with the string each value is.\<close>

datatype media_type = Image | Video | Audio | Document | Note

fun typeName :: "media_type \<Rightarrow> string" where
  "typeName Image = ''image''"
| "typeName Video = ''video''"
| "typeName Audio = ''audio''"
| "typeName Document = ''document''"
| "typeName Note = ''note''"

text \<open>The capture mode \<^verbatim>\<open>'photo' | 'video' | 'audio'\<close>.\<close>

datatype capture_kind = PhotoCapture | VideoCapture | AudioCapture

text \<open>
  A blob: its size in bytes, its MIME type, and its name when it is a \<^verbatim>\<open>File\<close>
  (\<open>blob_file_name = None\<close> is \<^verbatim>\<open>!(blob instanceof File)\<close>).
\<close>

record blob =
  blob_size :: nat
  blob_type :: string
  blob_file_name :: "string option"

record user =
  user_id :: string

text \<open>\<^verbatim>\<open>MediaAttachment\<close>, the row the metadata table returns.\<close>

record attachment =
  att_id :: string
  att_study_log_id :: string
  att_type :: media_type
  att_file_url :: string
  att_file_name :: string
  att_created_at :: string

text \<open>The row \<^verbatim>\<open>uploadMedia\<close> inserts.\<close>

record insert_row =
  study_log_id :: string
  row_type :: media_type
  file_url :: string
  file_name :: string

text \<open>A media stream is known by its identity; its tracks are stopped together.\<close>

type_synonym stream = nat

record recorder =
  rec_stream :: stream
  rec_mimeType :: string

text \<open>
  The calls the component makes on its collaborators, in the order it makes them:
  notifications, the authentication lookup, the object store, the metadata table, the
  completion callback, and the media devices.
\<close>

datatype event =
    Notify string string
  | AuthGetUser
  | StorageUpload string string blob
  | StorageGetPublicUrl string string
  | DbInsert string insert_row
  | OnUpload attachment
  | GetUserMedia bool bool
  | StopTracks stream
  | NewMediaRecorder stream string

text \<open>
  The component's state: the React state variables, the refs, the streams whose tracks
  are live (the platform's side of \<^verbatim>\<open>getUserMedia\<close> and \<^verbatim>\<open>track.stop()\<close>), and the log
  of calls made so far.
\<close>

record component =
  isCapturing :: "capture_kind option"
  recording :: bool
  recordedAudio :: "blob option"
  uploading :: bool
  streamRef :: "stream option"
  mediaRecorderRef :: "recorder option"
  isMounted :: bool
  live :: "stream list"
  trace :: "event list"

definition emit :: "event \<Rightarrow> component \<Rightarrow> component" where
  "emit e st = st\<lparr>trace := trace st @ [e]\<rparr>"

text \<open>\<^verbatim>\<open>notify(message, type)\<close> of the notifications module dispatches one event.\<close>

definition notify :: "string \<Rightarrow> string \<Rightarrow> component \<Rightarrow> component" where
  "notify message level st = emit (Notify message level) st"

text \<open>The calls a component has made between two of its states.\<close>

definition new_events :: "component \<Rightarrow> component \<Rightarrow> event list" where
  "new_events st st' = drop (length (trace st)) (trace st')"

subsection \<open>Streams and the recorder\<close>

text \<open>\<^verbatim>\<open>stream.getTracks().forEach(t => t.stop())\<close>\<close>

definition stopTracks :: "stream \<Rightarrow> component \<Rightarrow> component" where
  "stopTracks s st = (emit (StopTracks s) st)\<lparr>live := removeAll s (live st)\<rparr>"

definition stopStream :: "component \<Rightarrow> component" where
  "stopStream st =
     (let st1 = (case streamRef st of
                   Some s \<Rightarrow> (stopTracks s st)\<lparr>streamRef := None\<rparr>
                 | None \<Rightarrow> st)
      in if isMounted st1
         then st1\<lparr>isCapturing := None, recording := False, recordedAudio := None\<rparr>
         else st1)"

text \<open>The cleanup of the mount effect: \<^verbatim>\<open>isMounted.current = false; stopStream();\<close>\<close>

definition unmount :: "component \<Rightarrow> component" where
  "unmount st = stopStream (st\<lparr>isMounted := False\<rparr>)"

text \<open>
  \<^verbatim>\<open>getSupportedMimeType\<close>; \<open>isTypeSupported\<close> is \<^verbatim>\<open>MediaRecorder.isTypeSupported\<close>.
  The source tests \<^verbatim>\<open>type === 'video'\<close> and takes the audio list otherwise;
  \<^verbatim>\<open>find(...) || ''\<close> is the empty string when nothing is found.
\<close>

definition getSupportedMimeType :: "(string \<Rightarrow> bool) \<Rightarrow> capture_kind \<Rightarrow> string" where
  "getSupportedMimeType isTypeSupported type =
     (let videoTypes = [''video/webm;codecs=vp8'', ''video/webm'', ''video/mp4'', ''video/quicktime''];
          audioTypes = [''audio/webm'', ''audio/mp4'', ''audio/ogg'', ''audio/aac''];
          possibleTypes = (if type = VideoCapture then videoTypes else audioTypes)
      in case List.find isTypeSupported possibleTypes of
           Some t \<Rightarrow> t
         | None \<Rightarrow> [])"

definition setupRecorder ::
  "(string \<Rightarrow> bool) \<Rightarrow> stream \<Rightarrow> capture_kind \<Rightarrow> component \<Rightarrow> component" where
  "setupRecorder isTypeSupported s type st =
     (let mimeType = getSupportedMimeType isTypeSupported type
      in if mimeType = []
         then notify ''Your browser does not support recording media.'' ''error'' st
         else (emit (NewMediaRecorder s mimeType) st)
                \<lparr>mediaRecorderRef := Some \<lparr>rec_stream = s, rec_mimeType = mimeType\<rparr>\<rparr>)"

text \<open>
  What the platform answers while \<^verbatim>\<open>startStream\<close> runs: the stream of
  \<^verbatim>\<open>getUserMedia\<close> (\<open>None\<close> when the promise rejects), whether the component is torn
  down while the promise is pending, and the recorder's support test.
\<close>

record media_env =
  getUserMedia :: "stream option"
  teardown :: bool
  isTypeSupported :: "string \<Rightarrow> bool"

text \<open>
  \<^verbatim>\<open>startStream\<close> in two parts, split at its \<^verbatim>\<open>await\<close>: up to the call of
  \<^verbatim>\<open>getUserMedia\<close>, and from the promise's settlement on. The \<^verbatim>\<open>catch\<close> branch is the
  rejected promise.
\<close>

definition startStream_request :: "capture_kind \<Rightarrow> component \<Rightarrow> component" where
  "startStream_request type st =
     (let st1 = (if streamRef st \<noteq> None then stopStream st else st)
      in emit (GetUserMedia (type \<noteq> AudioCapture) True) st1)"

definition startStream_resume :: "media_env \<Rightarrow> capture_kind \<Rightarrow> component \<Rightarrow> component" where
  "startStream_resume env type st =
     (case getUserMedia env of
        None \<Rightarrow>
          (notify ''Media access denied. Please check your browser permissions.'' ''error'' st)
            \<lparr>isCapturing := None\<rparr>
      | Some s \<Rightarrow>
          (let st1 = st\<lparr>live := live st @ [s]\<rparr>
           in if \<not> isMounted st1 then stopTracks s st1
              else
                (let st2 = st1\<lparr>streamRef := Some s, isCapturing := Some type,
                               recordedAudio := None\<rparr>
                 in if type = AudioCapture \<or> type = VideoCapture
                    then setupRecorder (isTypeSupported env) s type st2
                    else st2)))"

text \<open>One call of \<^verbatim>\<open>startStream\<close> that no other call overlaps.\<close>

definition startStream :: "media_env \<Rightarrow> capture_kind \<Rightarrow> component \<Rightarrow> component" where
  "startStream env type st =
     (let st1 = startStream_request type st;
          st2 = (if teardown env then unmount st1 else st1)
      in startStream_resume env type st2)"

subsection \<open>Strings\<close>

text \<open>\<^verbatim>\<open>s.lastIndexOf(c)\<close> for a one-character string \<open>c\<close>: \<open>-1\<close> when \<open>c\<close> does not occur.\<close>

fun lastIndexOf :: "string \<Rightarrow> char \<Rightarrow> int" where
  "lastIndexOf [] c = - 1"
| "lastIndexOf (a # s) c =
     (let r = lastIndexOf s c
      in if r \<noteq> - 1 then r + 1 else if a = c then 0 else - 1)"

text \<open>
  \<^verbatim>\<open>s.substring(start, end)\<close> and \<^verbatim>\<open>s.substring(start)\<close>: negative arguments count as 0,
  arguments beyond the length as the length, and the two are swapped when out of order.
\<close>

definition substring :: "string \<Rightarrow> int \<Rightarrow> int \<Rightarrow> string" where
  "substring s a b =
     (let n = length s;
          a' = min (nat a) n;
          b' = min (nat b) n;
          lo = min a' b';
          hi = max a' b'
      in take (hi - lo) (drop lo s))"

definition substring_from :: "string \<Rightarrow> int \<Rightarrow> string" where
  "substring_from s a = substring s a (int (length s))"

text \<open>The class \<^verbatim>\<open>[a-zA-Z0-9-_]\<close>: letters, digits, the hyphen and the underscore.\<close>

definition in_class :: "char \<Rightarrow> bool" where
  "in_class c =
     (let n = (of_char c :: nat)
      in (97 \<le> n \<and> n \<le> 122) \<or> (65 \<le> n \<and> n \<le> 90) \<or> (48 \<le> n \<and> n \<le> 57)
         \<or> c = CHR ''-'' \<or> c = CHR ''_'')"

text \<open>\<^verbatim>\<open>baseName.replace(/[^a-zA-Z0-9-_]/g, '_')\<close>\<close>

definition sanitize :: "string \<Rightarrow> string" where
  "sanitize s = map (\<lambda>c. if in_class c then c else CHR ''_'') s"

text \<open>\<^verbatim>\<open>s.replace(/\//g, '-')\<close> and \<^verbatim>\<open>s.replace(/:/g, '-')\<close>\<close>

definition replace_char :: "char \<Rightarrow> char \<Rightarrow> string \<Rightarrow> string" where
  "replace_char a b s = map (\<lambda>c. if c = a then b else c) s"

text \<open>\<^verbatim>\<open>type.charAt(0).toUpperCase() + type.slice(1)\<close>, on the ASCII names of the types.\<close>

definition toUpperCase :: "char \<Rightarrow> char" where
  "toUpperCase c =
     (let n = (of_char c :: nat)
      in if 97 \<le> n \<and> n \<le> 122 then char_of (n - 32) else c)"

definition capitalize :: "string \<Rightarrow> string" where
  "capitalize s = (case s of [] \<Rightarrow> [] | c # cs \<Rightarrow> toUpperCase c # cs)"

text \<open>The decimal digits of a number, as the template literal prints \<^verbatim>\<open>Date.now()\<close>.\<close>

definition digit :: "nat \<Rightarrow> char" where
  "digit d = char_of (48 + d)"

fun showNat :: "nat \<Rightarrow> string" where
  "showNat n = (if n < 10 then [digit n] else showNat (n div 10) @ [digit (n mod 10)])"

declare showNat.simps [simp del]

subsection \<open>The upload\<close>

text \<open>
  What the outside answers while \<^verbatim>\<open>uploadMedia\<close> runs: the authenticated user, the
  random id (\<^verbatim>\<open>Math.random().toString(36).substring(2, 10)\<close>), \<^verbatim>\<open>Date.now()\<close>, the locale
  date and time strings, the error of the storage write, the public URL of a path, the
  \<^verbatim>\<open>data\<close> and \<^verbatim>\<open>error\<close> of the insert, and whether the component is torn down while
  the calls are pending.
\<close>

record upload_env =
  authUser :: "user option"
  uniqueId :: string
  timestamp :: nat
  localeDate :: string
  localeTime :: string
  uploadError :: "string option"
  publicUrlOf :: "string \<Rightarrow> string"
  insertData :: "attachment option"
  insertError :: "string option"
  unmounted :: bool

text \<open>
  The naming block of \<^verbatim>\<open>uploadMedia\<close> (from \<^verbatim>\<open>const uniqueId\<close> to the end of the
  \<^verbatim>\<open>if (blob instanceof File) ... else ...\<close>): the pair \<^verbatim>\<open>(storageFileName, dbFileName)\<close>.
\<close>

definition deriveNames :: "upload_env \<Rightarrow> blob \<Rightarrow> media_type \<Rightarrow> string \<times> string" where
  "deriveNames env b type =
     (case blob_file_name b of
        Some name \<Rightarrow>
          (let lastDotIndex = lastIndexOf name CHR ''.'';
               baseName = (if lastDotIndex \<noteq> - 1 then substring name 0 lastDotIndex else name);
               ext = (if lastDotIndex \<noteq> - 1 then substring_from name (lastDotIndex + 1) else []);
               sanitizedBaseName = sanitize baseName
           in (uniqueId env @ ''_'' @ sanitizedBaseName @ ''.'' @ ext, name))
      | None \<Rightarrow>
          (let ext = (if type = Image then ''jpg'' else ''webm'');
               storageFileName =
                 uniqueId env @ ''_'' @ typeName type @ ''_'' @ showNat (timestamp env) @ ''.'' @ ext;
               dateStr = replace_char CHR ''/'' CHR ''-'' (localeDate env);
               timeStr = replace_char CHR '':'' CHR ''-'' (localeTime env)
           in (storageFileName,
               capitalize (typeName type) @ '' Capture '' @ dateStr @ '' '' @ timeStr @ ''.'' @ ext)))"

definition sizeLimit :: nat where
  "sizeLimit = 50 * 1024 * 1024"

text \<open>
  The \<^verbatim>\<open>try\<close> block of \<^verbatim>\<open>uploadMedia\<close> with its \<^verbatim>\<open>catch\<close>: the storage write, the public
  URL, the insert and the callback; a thrown error skips what follows it and is
  notified.
\<close>

definition storeAndRecord ::
  "upload_env \<Rightarrow> string \<Rightarrow> blob \<Rightarrow> media_type \<Rightarrow> string \<Rightarrow> string \<Rightarrow> component \<Rightarrow> component" where
  "storeAndRecord env logId b type filePath dbFileName st =
     (let st1 = emit (StorageUpload ''student-assets'' filePath b) st
      in case uploadError env of
           Some msg \<Rightarrow> notify (''Storage error: '' @ msg) ''error'' st1
         | None \<Rightarrow>
             (let publicUrl = publicUrlOf env filePath;
                  st2 = emit (StorageGetPublicUrl ''student-assets'' filePath) st1;
                  st3 = emit (DbInsert ''media_attachments''
                                \<lparr>study_log_id = logId, row_type = type,
                                 file_url = publicUrl, file_name = dbFileName\<rparr>) st2
              in case insertError env of
                   Some msg \<Rightarrow> notify (''Storage error: '' @ msg) ''error'' st3
                 | None \<Rightarrow>
                     (case insertData env of
                        Some d \<Rightarrow> if isMounted st3 then emit (OnUpload d) st3 else st3
                      | None \<Rightarrow> st3)))"

text \<open>
  \<^verbatim>\<open>uploadMedia(blob, type)\<close> of a component with the prop \<^verbatim>\<open>logId\<close>. A teardown while
  the calls are pending is placed at the first \<^verbatim>\<open>await\<close>.
\<close>

definition uploadMedia ::
  "upload_env \<Rightarrow> string \<Rightarrow> blob \<Rightarrow> media_type \<Rightarrow> component \<Rightarrow> component" where
  "uploadMedia env logId b type st =
     (let fileSizeInBytes = blob_size b
      in if fileSizeInBytes > sizeLimit then
           (let st1 = notify ''File too large. Maximum size limit is 50MB.'' ''error'' st
            in if isMounted st1
               then st1\<lparr>isCapturing := None, uploading := False,
                        recording := (if recording st1 then False else recording st1)\<rparr>
               else st1)
         else
           (let st1 = emit AuthGetUser (st\<lparr>uploading := True\<rparr>);
                st2 = (if unmounted env then unmount st1 else st1)
            in case authUser env of
                 None \<Rightarrow>
                   (notify ''Authentication required to upload.'' ''error'' st2)
                     \<lparr>uploading := False\<rparr>
               | Some u \<Rightarrow>
                   (let (storageFileName, dbFileName) = deriveNames env b type;
                        filePath = user_id u @ ''/'' @ storageFileName;
                        st3 = storeAndRecord env logId b type filePath dbFileName st2
                    in if isMounted st3
                       then st3\<lparr>uploading := False, isCapturing := None, recordedAudio := None\<rparr>
                       else st3)))"

text \<open>The events that reach the network, and the callback events.\<close>

fun is_network :: "event \<Rightarrow> bool" where
  "is_network AuthGetUser = True"
| "is_network (StorageUpload _ _ _) = True"
| "is_network (StorageGetPublicUrl _ _) = True"
| "is_network (DbInsert _ _) = True"
| "is_network _ = False"

fun is_insert :: "event \<Rightarrow> bool" where
  "is_insert (DbInsert _ _) = True"
| "is_insert _ = False"

fun is_callback :: "event \<Rightarrow> bool" where
  "is_callback (OnUpload _) = True"
| "is_callback _ = False"

text \<open>Every live stream is the one the component holds.\<close>

definition held_only :: "component \<Rightarrow> bool" where
  "held_only st \<longleftrightarrow> list_all (\<lambda>s. streamRef st = Some s) (live st)"

subsection \<open>Notions used to state the properties\<close>

text \<open>The size of the canvas a save produced, when it produced one.\<close>

definition canvas_size :: "raster option \<Rightarrow> (nat \<times> nat) option" where
  "canvas_size r = map_option (\<lambda>r. (canvas_width r, canvas_height r)) r"

text \<open>
  An upload in which every step succeeds: the blob is within the limit, a user is
  signed in, and neither the storage write nor the insert reports an error.
\<close>

definition upload_ok :: "upload_env \<Rightarrow> blob \<Rightarrow> bool" where
  "upload_ok env b \<longleftrightarrow>
     blob_size b \<le> sizeLimit \<and> authUser env \<noteq> None \<and>
     uploadError env = None \<and> insertError env = None"

text \<open>
  The sanitiser as the specification words it, for comparison with \<open>sanitize\<close>: every
  character of the base name that is not a letter or a digit is replaced.
\<close>

definition is_alphanumeric :: "char \<Rightarrow> bool" where
  "is_alphanumeric c =
     (let n = (of_char c :: nat)
      in (97 \<le> n \<and> n \<le> 122) \<or> (65 \<le> n \<and> n \<le> 90) \<or> (48 \<le> n \<and> n \<le> 57))"

definition sanitize_alphanumeric :: "string \<Rightarrow> string" where
  "sanitize_alphanumeric s = map (\<lambda>c. if is_alphanumeric c then c else CHR ''_'') s"

text \<open>Concrete inputs: a mounted, idle component, cooperative collaborators, and blobs.\<close>

definition idle :: component where
  "idle = \<lparr>isCapturing = None, recording = False, recordedAudio = None, uploading = False,
           streamRef = None, mediaRecorderRef = None, isMounted = True, live = [], trace = []\<rparr>"

definition row1 :: attachment where
  "row1 = \<lparr>att_id = ''a1'', att_study_log_id = ''log1'', att_type = Image,
           att_file_url = ''https://cdn/u1/f'', att_file_name = ''f'',
           att_created_at = ''2026-01-01''\<rparr>"

definition env_ok :: upload_env where
  "env_ok = \<lparr>authUser = Some \<lparr>user_id = ''u1''\<rparr>, uniqueId = ''abc12345'',
             timestamp = 1700000000000, localeDate = ''11/2/2026'', localeTime = ''3:02:01 PM'',
             uploadError = None, publicUrlOf = (\<lambda>p. ''https://cdn/'' @ p),
             insertData = Some row1, insertError = None, unmounted = False\<rparr>"

definition picked :: "string \<Rightarrow> nat \<Rightarrow> blob" where
  "picked name n = \<lparr>blob_size = n, blob_type = ''application/octet-stream'', blob_file_name = Some name\<rparr>"

definition captured :: "nat \<Rightarrow> blob" where
  "captured n = \<lparr>blob_size = n, blob_type = ''image/jpeg'', blob_file_name = None\<rparr>"

definition granting :: "stream \<Rightarrow> media_env" where
  "granting s = \<lparr>getUserMedia = Some s, teardown = False, isTypeSupported = (\<lambda>t. t = ''audio/ogg'')\<rparr>"

definition holding :: "stream \<Rightarrow> component" where
  "holding s = idle\<lparr>isCapturing := Some PhotoCapture, streamRef := Some s, live := [s]\<rparr>"

definition denying :: media_env where
  "denying = \<lparr>getUserMedia = None, teardown = False, isTypeSupported = (\<lambda>t. False)\<rparr>"

section \<open>Properties of the crop geometry\<close>

lemma mode_includes_simps:
  "mode_includes Move c \<longleftrightarrow> c \<in> {CHR ''m'', CHR ''o'', CHR ''v'', CHR ''e''}"
  "mode_includes NW c \<longleftrightarrow> c \<in> {CHR ''n'', CHR ''w''}"
  "mode_includes NE c \<longleftrightarrow> c \<in> {CHR ''n'', CHR ''e''}"
  "mode_includes SW c \<longleftrightarrow> c \<in> {CHR ''s'', CHR ''w''}"
  "mode_includes SE c \<longleftrightarrow> c \<in> {CHR ''s'', CHR ''e''}"
  by (auto simp: mode_includes_def)

lemma scale_numeral:
  "scale (numeral k) a e =
     (if a < pow2 e then scale (pred_numeral k) a (e - 1)
      else if pow2 (e + 1) \<le> a then scale (pred_numeral k) a (e + 1)
      else e)"
  by (simp add: numeral_eq_Suc)

lemmas fl_eval =
  fadd_def fsub_def fmul_def fdiv_def fl_def exponent_def scale_numeral pow2_def
  round_half_even_def Let_def

text \<open>The rounding at the familiar sum: \<^verbatim>\<open>0.1 + 0.2\<close> is \<open>0.30000000000000004\<close>.\<close>

lemma fl_tenth_plus_fifth:
  "fl (1 / 10) = 3602879701896397 / 2 ^ 55 \<and> fl (2 / 10) = 3602879701896397 / 2 ^ 54 \<and>
   fl (3 / 10) = 5404319552844595 / 2 ^ 54 \<and>
   fadd (fl (1 / 10)) (fl (2 / 10)) = 1351079888211149 / 2 ^ 52 \<and>
   fl (3 / 10) < fadd (fl (1 / 10)) (fl (2 / 10))"
  by (simp add: fl_eval)

lemmas crop_unfold =
  handlePointerMove_def onPointerDown_def initialCrop_def computeCrop_def
  resize_n_def resize_s_def resize_w_def resize_e_def mode_includes_simps Let_def

lemmas num_eval = fl_eval clamp_def min_def max_def

subsection \<open>clamp\<close>

text \<open>
  C9, as stated, fails when the lower bound is above the upper one: \<^verbatim>\<open>clamp(0, 5, 3)\<close>
  is 3, although \<open>0 < 5\<close>.
\<close>

theorem clamp_below_counterexample: "(0::real) < 5 \<and> clamp 0 5 3 \<noteq> 5"
  by (simp add: clamp_def)

text \<open>
  C9 (amended): \<open>clamp v lo hi\<close> is \<open>hi\<close> when \<open>v > hi\<close>; it is \<open>lo\<close> when \<open>v < lo\<close>,
  provided \<open>lo \<le> hi\<close>; and it is \<open>v\<close> when \<open>lo \<le> v \<le> hi\<close>.
\<close>

theorem clamp_cases:
  "(hi < v \<longrightarrow> clamp v lo hi = hi) \<and>
   (lo \<le> hi \<longrightarrow> v < lo \<longrightarrow> clamp v lo hi = lo) \<and>
   (lo \<le> v \<longrightarrow> v \<le> hi \<longrightarrow> clamp v lo hi = v)"
  by (auto simp: clamp_def)

text \<open>The three cases at the bounds 0 and 10.\<close>

theorem clamp_cases_witness:
  "((10::real) < 15 \<and> clamp 15 0 10 = 10) \<and>
   ((0::real) \<le> 10 \<and> (- 1::real) < 0 \<and> clamp (- 1) 0 10 = 0) \<and>
   ((0::real) \<le> 5 \<and> (5::real) \<le> 10 \<and> clamp 5 0 10 = 5)"
  using clamp_cases [where v = 15 and lo = 0 and hi = 10]
    clamp_cases [where v = "- 1" and lo = 0 and hi = 10]
    clamp_cases [where v = 5 and lo = 0 and hi = 10]
  by simp

subsection \<open>The bounds of the rectangle\<close>

text \<open>
  C1 at a failing input: the initial rectangle, the \<^verbatim>\<open>nw\<close> handle, an image displayed
  at 300 by 300 pixels. A drag by one pixel gives \<open>x = 0.33333333333333337\<close> and
  \<open>width = 99.66666666666667\<close>, whose sum is above 100 (and rounds to 100 as a double);
  a second drag by one pixel gives \<open>x = 0.6666666666666667\<close> and
  \<open>width = 99.33333333333334\<close>, whose sum is \<open>100.00000000000001\<close> as a double too.
\<close>

theorem pointer_move_leaves_bounds:
  "in_bounds initialCrop \<and> min_sized initialCrop \<and>
   handlePointerMove (Some (onPointerDown NW 40 40 initialCrop))
     (Some \<lparr>rect_width = 300, rect_height = 300\<rparr>) 41 41 initialCrop =
     \<lparr>crop_x = 3002399751580331 / 2 ^ 53, crop_y = 3002399751580331 / 2 ^ 53,
      crop_width = 7013418169707179 / 2 ^ 46, crop_height = 7013418169707179 / 2 ^ 46\<rparr> \<and>
   (100::real) < 3002399751580331 / 2 ^ 53 + 7013418169707179 / 2 ^ 46 \<and>
   fadd (3002399751580331 / 2 ^ 53) (7013418169707179 / 2 ^ 46) = 100 \<and>
   handlePointerMove
     (Some (onPointerDown NW 41 41
        \<lparr>crop_x = 3002399751580331 / 2 ^ 53, crop_y = 3002399751580331 / 2 ^ 53,
         crop_width = 7013418169707179 / 2 ^ 46, crop_height = 7013418169707179 / 2 ^ 46\<rparr>))
     (Some \<lparr>rect_width = 300, rect_height = 300\<rparr>) 42 42
     \<lparr>crop_x = 3002399751580331 / 2 ^ 53, crop_y = 3002399751580331 / 2 ^ 53,
      crop_width = 7013418169707179 / 2 ^ 46, crop_height = 7013418169707179 / 2 ^ 46\<rparr> =
     \<lparr>crop_x = 3002399751580331 / 2 ^ 52, crop_y = 3002399751580331 / 2 ^ 52,
      crop_width = 3494980960823979 / 2 ^ 45, crop_height = 3494980960823979 / 2 ^ 45\<rparr> \<and>
   fadd (3002399751580331 / 2 ^ 52) (3494980960823979 / 2 ^ 45) = 7036874417766401 / 2 ^ 46 \<and>
   (100::real) < 7036874417766401 / 2 ^ 46 \<and>
   \<not> in_bounds
     \<lparr>crop_x = 3002399751580331 / 2 ^ 52, crop_y = 3002399751580331 / 2 ^ 52,
      crop_width = 3494980960823979 / 2 ^ 45, crop_height = 3494980960823979 / 2 ^ 45\<rparr>"
  by (simp add: crop_unfold in_bounds_def min_sized_def) (simp add: num_eval)

subsection \<open>The minimum size\<close>

text \<open>
  C2 at a failing input: on an image displayed at 300 by 300 pixels, a drag of the
  \<^verbatim>\<open>nw\<close> handle of the initial rectangle by 91 pixels gives
  \<open>x = 30.333333333333336\<close> and \<open>width = 69.66666666666666\<close>, a rectangle within the
  four bounds and of at least the minimum size; a drag of its \<^verbatim>\<open>nw\<close> handle by 300
  pixels then gives \<open>x = 90\<close> and \<open>width = height = 9.999999999999993\<close>, below 10. The
  example of the claim, \<^verbatim>\<open>{x: 10, y: 10, width: 20, height: 20}\<close> with (+50, +50) percent
  on the \<^verbatim>\<open>nw\<close> handle, gives \<open>y = 20\<close> and \<open>height = 10\<close>.
\<close>

theorem resize_below_min_size:
  "handlePointerMove (Some (onPointerDown NW 40 40 initialCrop))
     (Some \<lparr>rect_width = 300, rect_height = 300\<rparr>) 131 131 initialCrop =
     \<lparr>crop_x = 4269037146778283 / 2 ^ 47, crop_y = 4269037146778283 / 2 ^ 47,
      crop_width = 2451177922188629 / 2 ^ 45, crop_height = 2451177922188629 / 2 ^ 45\<rparr> \<and>
   in_bounds
     \<lparr>crop_x = 4269037146778283 / 2 ^ 47, crop_y = 4269037146778283 / 2 ^ 47,
      crop_width = 2451177922188629 / 2 ^ 45, crop_height = 2451177922188629 / 2 ^ 45\<rparr> \<and>
   min_sized
     \<lparr>crop_x = 4269037146778283 / 2 ^ 47, crop_y = 4269037146778283 / 2 ^ 47,
      crop_width = 2451177922188629 / 2 ^ 45, crop_height = 2451177922188629 / 2 ^ 45\<rparr> \<and>
   handlePointerMove
     (Some (onPointerDown NW 131 131
        \<lparr>crop_x = 4269037146778283 / 2 ^ 47, crop_y = 4269037146778283 / 2 ^ 47,
         crop_width = 2451177922188629 / 2 ^ 45, crop_height = 2451177922188629 / 2 ^ 45\<rparr>))
     (Some \<lparr>rect_width = 300, rect_height = 300\<rparr>) 431 431
     \<lparr>crop_x = 4269037146778283 / 2 ^ 47, crop_y = 4269037146778283 / 2 ^ 47,
      crop_width = 2451177922188629 / 2 ^ 45, crop_height = 2451177922188629 / 2 ^ 45\<rparr> =
     \<lparr>crop_x = 90, crop_y = 90,
      crop_width = 1407374883553279 / 2 ^ 47, crop_height = 1407374883553279 / 2 ^ 47\<rparr> \<and>
   1407374883553279 / 2 ^ 47 < (10::real) \<and>
   \<not> min_sized
     \<lparr>crop_x = 90, crop_y = 90,
      crop_width = 1407374883553279 / 2 ^ 47, crop_height = 1407374883553279 / 2 ^ 47\<rparr> \<and>
   handlePointerMove
     (Some (onPointerDown NW 0 0 \<lparr>crop_x = 10, crop_y = 10, crop_width = 20, crop_height = 20\<rparr>))
     (Some \<lparr>rect_width = 100, rect_height = 100\<rparr>) 50 50
     \<lparr>crop_x = 10, crop_y = 10,
      crop_width = 20, crop_height = 20\<rparr> =
     \<lparr>crop_x = 20, crop_y = 20,
      crop_width = 10, crop_height = 10\<rparr>"
  by (simp add: crop_unfold in_bounds_def min_sized_def) (simp add: num_eval)

subsection \<open>The size of the saved raster\<close>

text \<open>
  C3 at a failing input: the full rectangle on a 57 by 57 image. The number assigned to
  the canvas is \<open>100 * (57 / 100) = 56.99999999999999\<close>, which rounds to 57, and the
  raster is 56 by 56. In the same way a crop of 25.75 percent of a 100 by 100 image is
  saved as 25 by 25, where the product rounds to 26. The example of the claim,
  \<^verbatim>\<open>{25, 25, 50, 50}\<close> on a 400 by 400 image, is saved as 200 by 200.
\<close>

theorem save_full_rectangle_loses_pixel:
  "canvas_size (handleSave (Some \<lparr>naturalWidth = 57, naturalHeight = 57\<rparr>) True initialCrop) =
     Some (56, 56) \<and>
   map_option src_w (handleSave (Some \<lparr>naturalWidth = 57, naturalHeight = 57\<rparr>) True initialCrop) =
     Some (8022036836253695 / 2 ^ 47) \<and>
   round (8022036836253695 / 2 ^ 47 :: real) = 57 \<and>
   canvas_size (handleSave (Some \<lparr>naturalWidth = 100, naturalHeight = 100\<rparr>) True
      \<lparr>crop_x = 0, crop_y = 0, crop_width = 25.75, crop_height = 25.75\<rparr>) = Some (25, 25) \<and>
   round (25.75 :: real) = 26 \<and>
   canvas_size (handleSave (Some \<lparr>naturalWidth = 400, naturalHeight = 400\<rparr>) True
      \<lparr>crop_x = 25, crop_y = 25, crop_width = 50, crop_height = 50\<rparr>) = Some (200, 200)"
  by (simp add: canvas_size_def handleSave_def initialCrop_def Let_def)
     (simp add: setCanvasDim_def toUnsignedLong_def round_def num_eval)

section \<open>Properties of the capture component\<close>

subsection \<open>What each operation does to the trace and to the stream fields\<close>

lemma emit_fields [simp]:
  "trace (emit e st) = trace st @ [e]"
  "isMounted (emit e st) = isMounted st"
  "streamRef (emit e st) = streamRef st"
  "live (emit e st) = live st"
  "mediaRecorderRef (emit e st) = mediaRecorderRef st"
  by (simp_all add: emit_def)

lemma notify_fields [simp]:
  "trace (notify m l st) = trace st @ [Notify m l]"
  "isMounted (notify m l st) = isMounted st"
  "streamRef (notify m l st) = streamRef st"
  "live (notify m l st) = live st"
  "mediaRecorderRef (notify m l st) = mediaRecorderRef st"
  by (simp_all add: notify_def)

lemma stopTracks_fields [simp]:
  "trace (stopTracks s st) = trace st @ [StopTracks s]"
  "isMounted (stopTracks s st) = isMounted st"
  "streamRef (stopTracks s st) = streamRef st"
  "live (stopTracks s st) = removeAll s (live st)"
  "mediaRecorderRef (stopTracks s st) = mediaRecorderRef st"
  by (simp_all add: stopTracks_def)

lemma stopStream_fields [simp]:
  "trace (stopStream st) =
     trace st @ (case streamRef st of Some s \<Rightarrow> [StopTracks s] | None \<Rightarrow> [])"
  "isMounted (stopStream st) = isMounted st"
  "streamRef (stopStream st) = None"
  "live (stopStream st) =
     (case streamRef st of Some s \<Rightarrow> removeAll s (live st) | None \<Rightarrow> live st)"
  "mediaRecorderRef (stopStream st) = mediaRecorderRef st"
  by (simp_all add: stopStream_def Let_def split: option.splits)

lemma unmount_fields [simp]:
  "trace (unmount st) =
     trace st @ (case streamRef st of Some s \<Rightarrow> [StopTracks s] | None \<Rightarrow> [])"
  "isMounted (unmount st) = False"
  "streamRef (unmount st) = None"
  "live (unmount st) =
     (case streamRef st of Some s \<Rightarrow> removeAll s (live st) | None \<Rightarrow> live st)"
  by (simp_all add: unmount_def split: option.splits)

lemma setupRecorder_fields [simp]:
  "isMounted (setupRecorder sp s ty st) = isMounted st"
  "streamRef (setupRecorder sp s ty st) = streamRef st"
  "live (setupRecorder sp s ty st) = live st"
  "trace (setupRecorder sp s ty st) = trace st @
     [if getSupportedMimeType sp ty = []
      then Notify ''Your browser does not support recording media.'' ''error''
      else NewMediaRecorder s (getSupportedMimeType sp ty)]"
  "mediaRecorderRef (setupRecorder sp s ty st) =
     (if getSupportedMimeType sp ty = [] then mediaRecorderRef st
      else Some \<lparr>rec_stream = s, rec_mimeType = getSupportedMimeType sp ty\<rparr>)"
  by (simp_all add: setupRecorder_def Let_def)

lemma storeAndRecord_fields:
  "trace (storeAndRecord env logId b ty p n st) = trace st @
     StorageUpload ''student-assets'' p b #
     (case uploadError env of
        Some msg \<Rightarrow> [Notify (''Storage error: '' @ msg) ''error'']
      | None \<Rightarrow>
          StorageGetPublicUrl ''student-assets'' p #
          DbInsert ''media_attachments''
            \<lparr>study_log_id = logId, row_type = ty, file_url = publicUrlOf env p, file_name = n\<rparr> #
          (case insertError env of
             Some msg \<Rightarrow> [Notify (''Storage error: '' @ msg) ''error'']
           | None \<Rightarrow>
               (case insertData env of
                  Some d \<Rightarrow> if isMounted st then [OnUpload d] else []
                | None \<Rightarrow> [])))"
  "isMounted (storeAndRecord env logId b ty p n st) = isMounted st"
  by (simp_all add: storeAndRecord_def Let_def split: option.splits)

lemma trace_uploadMedia:
  "trace (uploadMedia env logId b ty st) = trace st @
     (if sizeLimit < blob_size b
      then [Notify ''File too large. Maximum size limit is 50MB.'' ''error'']
      else AuthGetUser #
        (if unmounted env
         then (case streamRef st of Some s \<Rightarrow> [StopTracks s] | None \<Rightarrow> []) else []) @
        (case authUser env of
           None \<Rightarrow> [Notify ''Authentication required to upload.'' ''error'']
         | Some u \<Rightarrow>
             new_events st (storeAndRecord env logId b ty
               (user_id u @ ''/'' @ fst (deriveNames env b ty)) (snd (deriveNames env b ty))
               (st\<lparr>isMounted := isMounted st \<and> \<not> unmounted env\<rparr>))))"
  by (simp add: uploadMedia_def Let_def new_events_def storeAndRecord_fields
      split: option.splits prod.splits)

lemma filter_callback_stop [simp]:
  "filter is_callback (case r of Some s \<Rightarrow> [StopTracks s] | None \<Rightarrow> []) = []"
  by (cases r) simp_all

lemma inserts_uploadMedia:
  "uploadError env = Some e \<Longrightarrow>
     \<not> list_ex is_insert (new_events st (uploadMedia env logId b ty st))"
  apply (cases "authUser env"; cases "streamRef st")
     apply (simp_all add: new_events_def trace_uploadMedia)
   apply (simp_all add: storeAndRecord_fields)
  done

lemma callbacks_uploadMedia:
  "filter is_callback (new_events st (uploadMedia env logId b ty st)) =
     (if upload_ok env b \<and> isMounted st \<and> \<not> unmounted env
      then (case insertData env of Some d \<Rightarrow> [OnUpload d] | None \<Rightarrow> []) else [])"
  apply (cases "sizeLimit < blob_size b"; cases "unmounted env"; cases "isMounted st";
         cases "authUser env"; cases "uploadError env"; cases "insertError env";
         cases "insertData env")
  apply (simp_all add: new_events_def trace_uploadMedia upload_ok_def split del: if_split)
  apply (simp_all add: storeAndRecord_fields split del: if_split)
  done

lemma storage_write_uploadMedia:
  assumes "blob_size b \<le> sizeLimit" and "authUser env = Some u"
  shows "StorageUpload ''student-assets'' (user_id u @ ''/'' @ fst (deriveNames env b ty)) b
           \<in> set (new_events st (uploadMedia env logId b ty st))"
  using assms
  by (cases "unmounted env")
     (simp_all add: new_events_def trace_uploadMedia storeAndRecord_fields split del: if_split)

lemma insert_uploadMedia:
  assumes "upload_ok env b" and "authUser env = Some u"
  shows "DbInsert ''media_attachments''
           \<lparr>study_log_id = logId, row_type = ty,
            file_url = publicUrlOf env (user_id u @ ''/'' @ fst (deriveNames env b ty)),
            file_name = snd (deriveNames env b ty)\<rparr>
           \<in> set (new_events st (uploadMedia env logId b ty st))"
  using assms
  by (cases "unmounted env")
     (simp_all add: upload_ok_def new_events_def trace_uploadMedia storeAndRecord_fields
        split del: if_split)

subsection \<open>The size limit and the steps of the upload\<close>

text \<open>
  C4: a blob above 50 MiB (one of \<open>50 * 1024 * 1024 + 1\<close> bytes in particular) makes the
  upload notify the size limit and make no other call: no authentication lookup, no
  storage write, no insert. A blob of at most 50 MiB passes the check: the upload goes
  on to the authentication lookup, and the size limit is not notified.
\<close>

theorem upload_size_gate:
  "(sizeLimit < blob_size b \<longrightarrow>
      new_events st (uploadMedia env logId b ty st) =
        [Notify ''File too large. Maximum size limit is 50MB.'' ''error''] \<and>
      \<not> list_ex is_network (new_events st (uploadMedia env logId b ty st))) \<and>
   (blob_size b = 50 * 1024 * 1024 + 1 \<longrightarrow>
      \<not> list_ex is_network (new_events st (uploadMedia env logId b ty st))) \<and>
   (blob_size b \<le> 50 * 1024 * 1024 \<longrightarrow>
      take 1 (new_events st (uploadMedia env logId b ty st)) = [AuthGetUser] \<and>
      Notify ''File too large. Maximum size limit is 50MB.'' ''error''
        \<notin> set (new_events st (uploadMedia env logId b ty st)))"
proof -
  have small: "Notify ''File too large. Maximum size limit is 50MB.'' ''error''
        \<notin> set (new_events st (uploadMedia env logId b ty st))"
    if "blob_size b \<le> sizeLimit"
    using that
    apply (cases "unmounted env"; cases "streamRef st"; cases "authUser env";
        cases "uploadError env"; cases "insertError env"; cases "insertData env";
        cases "isMounted st")
    apply (simp_all add: new_events_def trace_uploadMedia split del: if_split)
    apply (simp_all add: storeAndRecord_fields split del: if_split)
    done
  have big: "new_events st (uploadMedia env logId b ty st) =
        [Notify ''File too large. Maximum size limit is 50MB.'' ''error'']"
    if "sizeLimit < blob_size b"
    using that by (simp add: new_events_def trace_uploadMedia)
  have first: "take 1 (new_events st (uploadMedia env logId b ty st)) = [AuthGetUser]"
    if "blob_size b \<le> sizeLimit"
    using that by (simp add: new_events_def trace_uploadMedia)
  show ?thesis
    using big small first by (simp add: sizeLimit_def)
qed

text \<open>A file of \<open>50 * 1024 * 1024 + 1\<close> bytes, and one of exactly the limit.\<close>

theorem upload_size_gate_witness:
  "sizeLimit < blob_size (picked ''big.bin'' 52428801) \<and>
   new_events idle (uploadMedia env_ok ''log1'' (picked ''big.bin'' 52428801) Document idle) =
     [Notify ''File too large. Maximum size limit is 50MB.'' ''error''] \<and>
   blob_size (picked ''a.txt'' 52428800) \<le> 50 * 1024 * 1024 \<and>
   take 1 (new_events idle (uploadMedia env_ok ''log1'' (picked ''a.txt'' 52428800) Document idle)) =
     [AuthGetUser]"
  using upload_size_gate [of "picked ''big.bin'' 52428801" idle env_ok "''log1''" Document]
    upload_size_gate [of "picked ''a.txt'' 52428800" idle env_ok "''log1''" Document]
  by (simp add: picked_def sizeLimit_def)

text \<open>
  C6, as stated, fails when the component is torn down while the upload is pending:
  every step succeeds and the row is inserted, but the callback is not invoked.
\<close>

theorem upload_callback_counterexample:
  "upload_ok (env_ok\<lparr>unmounted := True\<rparr>) (captured 10) \<and>
   list_ex is_insert
     (new_events idle (uploadMedia (env_ok\<lparr>unmounted := True\<rparr>) ''log1'' (captured 10) Image idle)) \<and>
   filter is_callback
     (new_events idle (uploadMedia (env_ok\<lparr>unmounted := True\<rparr>) ''log1'' (captured 10) Image idle)) = []"
  by (simp add: callbacks_uploadMedia)
     (simp add: upload_ok_def env_ok_def captured_def sizeLimit_def idle_def new_events_def
        trace_uploadMedia storeAndRecord_fields)

text \<open>
  C6 (amended): a failed step aborts the steps after it: without a user nothing is
  written or inserted, and when the storage write fails no row is inserted. The
  callback is never invoked when a step fails and at most once in any case; it is
  invoked exactly once when every step succeeds, the insert returns a row, and the
  component is still mounted when the insert returns.
\<close>

theorem upload_failure_aborts:
  "(blob_size b \<le> sizeLimit \<and> authUser env = None \<and> \<not> unmounted env \<longrightarrow>
      new_events st (uploadMedia env logId b ty st) =
        [AuthGetUser, Notify ''Authentication required to upload.'' ''error'']) \<and>
   (uploadError env = Some e \<longrightarrow>
      \<not> list_ex is_insert (new_events st (uploadMedia env logId b ty st))) \<and>
   (\<not> upload_ok env b \<longrightarrow>
      filter is_callback (new_events st (uploadMedia env logId b ty st)) = []) \<and>
   length (filter is_callback (new_events st (uploadMedia env logId b ty st))) \<le> 1 \<and>
   (upload_ok env b \<and> isMounted st \<and> \<not> unmounted env \<and> insertData env = Some d \<longrightarrow>
      filter is_callback (new_events st (uploadMedia env logId b ty st)) = [OnUpload d])"
proof -
  have noauth: "new_events st (uploadMedia env logId b ty st) =
        [AuthGetUser, Notify ''Authentication required to upload.'' ''error'']"
    if "blob_size b \<le> sizeLimit" "authUser env = None" "\<not> unmounted env"
    using that by (simp add: new_events_def trace_uploadMedia)
  show ?thesis
    using noauth inserts_uploadMedia [of env e st logId b ty]
    by (simp add: callbacks_uploadMedia split: option.splits)
qed

text \<open>A failed storage write, and an upload in which every step succeeds.\<close>

theorem upload_failure_aborts_witness:
  "uploadError (env_ok\<lparr>uploadError := Some ''quota''\<rparr>) = Some ''quota'' \<and>
   \<not> list_ex is_insert
     (new_events idle
        (uploadMedia (env_ok\<lparr>uploadError := Some ''quota''\<rparr>) ''log1'' (captured 10) Image idle)) \<and>
   \<not> upload_ok (env_ok\<lparr>uploadError := Some ''quota''\<rparr>) (captured 10) \<and>
   filter is_callback
     (new_events idle
        (uploadMedia (env_ok\<lparr>uploadError := Some ''quota''\<rparr>) ''log1'' (captured 10) Image idle)) = [] \<and>
   upload_ok env_ok (captured 10) \<and> isMounted idle \<and> \<not> unmounted env_ok \<and>
   insertData env_ok = Some row1 \<and>
   filter is_callback
     (new_events idle (uploadMedia env_ok ''log1'' (captured 10) Image idle)) = [OnUpload row1]"
  using upload_failure_aborts
      [of "captured 10" "env_ok\<lparr>uploadError := Some ''quota''\<rparr>" idle "''log1''" Image "''quota''" row1]
    upload_failure_aborts [of "captured 10" env_ok idle "''log1''" Image "''quota''" row1]
  by (simp add: upload_ok_def env_ok_def captured_def sizeLimit_def idle_def)

subsection \<open>The names of the stored object\<close>

lemma lastIndexOf_absent: "c \<notin> set s \<Longrightarrow> lastIndexOf s c = - 1"
  by (induction s) (auto simp: Let_def)

lemma lastIndexOf_split: "c \<notin> set t \<Longrightarrow> lastIndexOf (s @ c # t) c = int (length s)"
  by (induction s) (auto simp: Let_def lastIndexOf_absent)

lemma substring_prefix: "substring (s @ t) 0 (int (length s)) = s"
  by (simp add: substring_def Let_def)

lemma substring_from_suffix: "substring_from (s @ c # t) (int (length s) + 1) = t"
  by (simp add: substring_from_def substring_def Let_def nat_add_distrib)

lemma digit_simps:
  "digit 0 = CHR ''0''" "digit 1 = CHR ''1''" "digit (Suc 0) = CHR ''1''" "digit 2 = CHR ''2''"
  "digit 3 = CHR ''3''" "digit 4 = CHR ''4''" "digit 5 = CHR ''5''" "digit 6 = CHR ''6''"
  "digit 7 = CHR ''7''" "digit 8 = CHR ''8''" "digit 9 = CHR ''9''"
  by (simp_all add: digit_def char_of_eq_iff)

lemma deriveNames_file:
  assumes "blob_file_name b = Some (base @ ''.'' @ ext)" and "CHR ''.'' \<notin> set ext"
  shows "deriveNames env b ty =
           (uniqueId env @ ''_'' @ sanitize base @ ''.'' @ ext, base @ ''.'' @ ext)"
  using assms lastIndexOf_split [of "CHR ''.''" ext base]
  by (simp add: deriveNames_def Let_def substring_prefix substring_from_suffix)

lemma deriveNames_captured:
  assumes "blob_file_name b = None"
  shows "fst (deriveNames env b ty) =
           uniqueId env @ ''_'' @ typeName ty @ ''_'' @ showNat (timestamp env) @ ''.'' @
           (if ty = Image then ''jpg'' else ''webm'')"
  using assms by (simp add: deriveNames_def Let_def)

text \<open>
  C5, as stated, fails on a hyphen: it is not a letter or a digit, yet the stored name
  of \<^verbatim>\<open>a-b.pdf\<close> keeps it, where the claim's wording replaces it.
\<close>

theorem upload_naming_counterexample:
  "fst (deriveNames env_ok (picked ''a-b.pdf'' 10) Document) = ''abc12345_a-b.pdf'' \<and>
   uniqueId env_ok @ ''_'' @ sanitize_alphanumeric ''a-b'' @ ''.pdf'' = ''abc12345_a_b.pdf''"
  by (simp add: deriveNames_def picked_def env_ok_def Let_def substring_def substring_from_def
      sanitize_def in_class_def sanitize_alphanumeric_def is_alphanumeric_def)

text \<open>
  C5 (amended): for a user-picked file named \<open>base.ext\<close> (split at the last dot) the
  stored object name is \<open>{random_id}_{sanitized base}.{ext}\<close>, where every character of
  the base name other than a letter, a digit, a hyphen or an underscore is replaced by
  an underscore and the extension is kept, and the display name is the original file
  name; \<^verbatim>\<open>My Notes.pdf\<close> gives \<^verbatim>\<open>{id}_My_Notes.pdf\<close> and \<^verbatim>\<open>My Notes.pdf\<close>. For a
  captured blob the stored name is \<open>{random_id}_{type}_{timestamp}.{ext}\<close> with \<open>jpg\<close>
  for images and \<open>webm\<close> otherwise. The upload writes the object under
  \<open>{user id}/{stored name}\<close> and inserts the display name.
\<close>

theorem upload_naming:
  "(blob_file_name b = Some (base @ ''.'' @ ext) \<and> CHR ''.'' \<notin> set ext \<longrightarrow>
      deriveNames env b ty =
        (uniqueId env @ ''_'' @ sanitize base @ ''.'' @ ext, base @ ''.'' @ ext)) \<and>
   (in_class c \<longleftrightarrow>
      c \<in> set ''abcdefghijklmnopqrstuvwxyzABCDEFGHIJKLMNOPQRSTUVWXYZ0123456789-_'') \<and>
   deriveNames env (picked ''My Notes.pdf'' n) ty =
     (uniqueId env @ ''_My_Notes.pdf'', ''My Notes.pdf'') \<and>
   (blob_file_name b = None \<longrightarrow>
      fst (deriveNames env b ty) =
        uniqueId env @ ''_'' @ typeName ty @ ''_'' @ showNat (timestamp env) @ ''.'' @
        (if ty = Image then ''jpg'' else ''webm'')) \<and>
   (upload_ok env b \<and> authUser env = Some u \<longrightarrow>
      StorageUpload ''student-assets'' (user_id u @ ''/'' @ fst (deriveNames env b ty)) b
        \<in> set (new_events st (uploadMedia env logId b ty st)) \<and>
      DbInsert ''media_attachments''
        \<lparr>study_log_id = logId, row_type = ty,
         file_url = publicUrlOf env (user_id u @ ''/'' @ fst (deriveNames env b ty)),
         file_name = snd (deriveNames env b ty)\<rparr>
        \<in> set (new_events st (uploadMedia env logId b ty st)))"
proof -
  have cls: "in_class c \<longleftrightarrow>
      c \<in> set ''abcdefghijklmnopqrstuvwxyzABCDEFGHIJKLMNOPQRSTUVWXYZ0123456789-_''"
    by (cases c) (simp add: in_class_def Let_def)
  have my_notes: "deriveNames env (picked ''My Notes.pdf'' n) ty =
     (uniqueId env @ ''_My_Notes.pdf'', ''My Notes.pdf'')"
    using deriveNames_file [of "picked ''My Notes.pdf'' n" "''My Notes''" "''pdf''" env ty]
    by (simp add: picked_def sanitize_def in_class_def)
  show ?thesis
    using cls my_notes deriveNames_file [of b base ext env ty] deriveNames_captured [of b env ty]
      storage_write_uploadMedia [of b env u ty st logId]
      insert_uploadMedia [of env b u logId ty st]
    by (simp add: upload_ok_def)
qed


text \<open>A picked file with two dots in its name, and a captured audio blob.\<close>

theorem upload_naming_witness:
  "blob_file_name (picked ''report v2.final.pdf'' 10) = Some (''report v2.final'' @ ''.'' @ ''pdf'') \<and>
   CHR ''.'' \<notin> set ''pdf'' \<and>
   deriveNames env_ok (picked ''report v2.final.pdf'' 10) Document =
     (''abc12345_report_v2_final.pdf'', ''report v2.final.pdf'') \<and>
   blob_file_name (captured 10) = None \<and>
   fst (deriveNames env_ok (captured 10) Audio) = ''abc12345_audio_1700000000000.webm'' \<and>
   upload_ok env_ok (captured 10) \<and> authUser env_ok = Some \<lparr>user_id = ''u1''\<rparr> \<and>
   StorageUpload ''student-assets'' ''u1/abc12345_audio_1700000000000.webm'' (captured 10)
     \<in> set (new_events idle (uploadMedia env_ok ''log1'' (captured 10) Audio idle))"
proof -
  note picked_case = upload_naming
      [of "picked ''report v2.final.pdf'' 10" "''report v2.final''" "''pdf''" env_ok Document
          "CHR ''a''" 0 "\<lparr>user_id = ''u1''\<rparr>" idle "''log1''"]
  note captured_case = upload_naming
      [of "captured 10" "''report v2.final''" "''pdf''" env_ok Audio
          "CHR ''a''" 0 "\<lparr>user_id = ''u1''\<rparr>" idle "''log1''"]
  have ok: "upload_ok env_ok (captured 10) \<and> authUser env_ok = Some \<lparr>user_id = ''u1''\<rparr>"
    by (simp add: upload_ok_def env_ok_def captured_def sizeLimit_def)
  have a: "deriveNames env_ok (picked ''report v2.final.pdf'' 10) Document =
     (''abc12345_report_v2_final.pdf'', ''report v2.final.pdf'')"
    using picked_case by (simp add: picked_def env_ok_def sanitize_def in_class_def)
  have b: "fst (deriveNames env_ok (captured 10) Audio) = ''abc12345_audio_1700000000000.webm''"
    using captured_case by (simp add: captured_def env_ok_def showNat.simps digit_simps)
  have c: "StorageUpload ''student-assets''
             (''u1/'' @ fst (deriveNames env_ok (captured 10) Audio)) (captured 10)
     \<in> set (new_events idle (uploadMedia env_ok ''log1'' (captured 10) Audio idle))"
    using captured_case ok by simp
  show ?thesis
    using a b c ok by (simp add: picked_def captured_def)
qed

text \<open>
  C10: for a user-picked file whose name has no dot, the stored object name is
  \<open>{random_id}_{sanitized name}.\<close>, ending in a dot with an empty extension, and the
  display name is the original file name.
\<close>

theorem dotless_name:
  assumes "blob_file_name b = Some name" and "CHR ''.'' \<notin> set name"
  shows "deriveNames env b ty = (uniqueId env @ ''_'' @ sanitize name @ ''.'', name) \<and>
         last (fst (deriveNames env b ty)) = CHR ''.''"
  using assms by (simp add: deriveNames_def lastIndexOf_absent)

text \<open>A file named \<^verbatim>\<open>READ ME\<close>, without a dot.\<close>

theorem dotless_name_witness:
  "blob_file_name (picked ''READ ME'' 10) = Some ''READ ME'' \<and> CHR ''.'' \<notin> set ''READ ME'' \<and>
   deriveNames env_ok (picked ''READ ME'' 10) Document = (''abc12345_READ_ME.'', ''READ ME'')"
  using dotless_name [of "picked ''READ ME'' 10" "''READ ME''" env_ok Document]
  by (simp add: picked_def env_ok_def sanitize_def in_class_def)

subsection \<open>The recorder and the stream\<close>

lemma audio_preference:
  "getSupportedMimeType supported AudioCapture =
     (if supported ''audio/webm'' then ''audio/webm''
      else if supported ''audio/mp4'' then ''audio/mp4''
      else if supported ''audio/ogg'' then ''audio/ogg''
      else if supported ''audio/aac'' then ''audio/aac'' else [])"
  by (simp add: getSupportedMimeType_def)

text \<open>
  C7: for audio, the recorder's encoding is the first supported one of \<open>audio/webm\<close>,
  \<open>audio/mp4\<close>, \<open>audio/ogg\<close>, \<open>audio/aac\<close>, in this order. When one is supported, the
  recorder is created with it; when none is, the setup notifies an error and creates
  no recorder.
\<close>

theorem audio_encoding_preference:
  "getSupportedMimeType supported AudioCapture =
     (if supported ''audio/webm'' then ''audio/webm''
      else if supported ''audio/mp4'' then ''audio/mp4''
      else if supported ''audio/ogg'' then ''audio/ogg''
      else if supported ''audio/aac'' then ''audio/aac'' else []) \<and>
   (supported ''audio/webm'' \<or> supported ''audio/mp4'' \<or> supported ''audio/ogg'' \<or>
    supported ''audio/aac'' \<longrightarrow>
      new_events st (setupRecorder supported s AudioCapture st) =
        [NewMediaRecorder s (getSupportedMimeType supported AudioCapture)] \<and>
      mediaRecorderRef (setupRecorder supported s AudioCapture st) =
        Some \<lparr>rec_stream = s, rec_mimeType = getSupportedMimeType supported AudioCapture\<rparr>) \<and>
   (\<not> supported ''audio/webm'' \<and> \<not> supported ''audio/mp4'' \<and> \<not> supported ''audio/ogg'' \<and>
    \<not> supported ''audio/aac'' \<longrightarrow>
      new_events st (setupRecorder supported s AudioCapture st) =
        [Notify ''Your browser does not support recording media.'' ''error''] \<and>
      mediaRecorderRef (setupRecorder supported s AudioCapture st) = mediaRecorderRef st)"
  by (auto simp add: audio_preference new_events_def)

text \<open>A browser that records \<open>audio/ogg\<close> and \<open>audio/aac\<close> only, and one that records nothing.\<close>

theorem audio_encoding_preference_witness:
  "getSupportedMimeType (\<lambda>t. t = ''audio/ogg'' \<or> t = ''audio/aac'') AudioCapture = ''audio/ogg'' \<and>
   new_events idle (setupRecorder (\<lambda>t. t = ''audio/ogg'' \<or> t = ''audio/aac'') 1 AudioCapture idle) =
     [NewMediaRecorder 1 ''audio/ogg''] \<and>
   new_events idle (setupRecorder (\<lambda>t. False) 1 AudioCapture idle) =
     [Notify ''Your browser does not support recording media.'' ''error''] \<and>
   mediaRecorderRef (setupRecorder (\<lambda>t. False) 1 AudioCapture idle) = mediaRecorderRef idle"
  using audio_encoding_preference [of "\<lambda>t. t = ''audio/ogg'' \<or> t = ''audio/aac''" idle 1]
    audio_encoding_preference [of "\<lambda>t. False" idle 1]
  by simp

lemma startStream_request_fields [simp]:
  "trace (startStream_request ty st) = trace st @
     (case streamRef st of Some s \<Rightarrow> [StopTracks s] | None \<Rightarrow> []) @
     [GetUserMedia (ty \<noteq> AudioCapture) True]"
  "isMounted (startStream_request ty st) = isMounted st"
  "streamRef (startStream_request ty st) = None"
  "live (startStream_request ty st) =
     (case streamRef st of Some s \<Rightarrow> removeAll s (live st) | None \<Rightarrow> live st)"
  by (auto simp add: startStream_request_def Let_def split: option.splits)

lemma removeAll_only: "\<forall>x\<in>set xs. x = a \<Longrightarrow> removeAll a xs = []"
  by (induction xs) auto

lemma held_only_released:
  "held_only st \<Longrightarrow>
     (case streamRef st of Some s \<Rightarrow> removeAll s (live st) | None \<Rightarrow> live st) = []"
  by (cases "streamRef st") (auto simp: held_only_def list_all_iff intro: removeAll_only)

lemma startStream_resume_fields:
  "live (startStream_resume env ty st) =
     (case getUserMedia env of None \<Rightarrow> live st
      | Some s \<Rightarrow> if isMounted st then live st @ [s] else removeAll s (live st @ [s]))"
  "streamRef (startStream_resume env ty st) =
     (case getUserMedia env of None \<Rightarrow> streamRef st
      | Some s \<Rightarrow> if isMounted st then Some s else streamRef st)"
  "isMounted (startStream_resume env ty st) = isMounted st"
  "\<exists>evs. trace (startStream_resume env ty st) = trace st @ evs"
  by (simp_all add: startStream_resume_def Let_def split: option.splits)

lemma startStream_live:
  assumes "held_only st"
  shows "length (live (startStream env ty st)) \<le> 1"
    and "held_only (startStream env ty st)"
    and "getUserMedia env = Some s \<Longrightarrow> isMounted st \<Longrightarrow> \<not> teardown env \<Longrightarrow>
           live (startStream env ty st) = [s] \<and> streamRef (startStream env ty st) = Some s"
  using held_only_released [OF assms]
  by (auto simp: startStream_def Let_def startStream_resume_fields held_only_def
      split: option.splits)

lemma startStream_releases_first:
  assumes "streamRef st = Some old"
  shows "take 2 (new_events st (startStream env ty st)) =
           [StopTracks old, GetUserMedia (ty \<noteq> AudioCapture) True]"
proof -
  obtain evs where "trace (startStream env ty st) =
      trace (if teardown env then unmount (startStream_request ty st)
             else startStream_request ty st) @ evs"
    unfolding startStream_def Let_def using startStream_resume_fields(4) by blast
  then show ?thesis using assms by (simp add: new_events_def)
qed

text \<open>
  C8, as stated, fails when the platform refuses the new stream: the stream held before
  is released, none is acquired, and no stream is active after the start.
\<close>

theorem start_stream_counterexample:
  "held_only (holding 1) \<and> streamRef (holding 1) = Some 1 \<and>
   live (startStream denying AudioCapture (holding 1)) = [] \<and>
   length (live (startStream denying AudioCapture (holding 1))) \<noteq> 1"
  by (simp add: holding_def idle_def denying_def held_only_def startStream_def Let_def
      startStream_resume_fields)

text \<open>
  C8 (amended): in every state in which the only live stream is the held one, a start
  that no other start overlaps first stops the tracks of the held stream and then asks
  for the new one; after it at most one stream is live, and the only live stream is
  again the held one. Exactly one stream, the new one, is live and held when the
  platform grants it and the component is still mounted.
\<close>

theorem start_stream_single:
  assumes "held_only st"
  shows "length (live (startStream env ty st)) \<le> 1 \<and>
         held_only (startStream env ty st) \<and>
         (streamRef st = Some old \<longrightarrow>
            take 2 (new_events st (startStream env ty st)) =
              [StopTracks old, GetUserMedia (ty \<noteq> AudioCapture) True]) \<and>
         (getUserMedia env = Some s \<and> isMounted st \<and> \<not> teardown env \<longrightarrow>
            live (startStream env ty st) = [s] \<and> streamRef (startStream env ty st) = Some s)"
  using startStream_live [OF assms] startStream_releases_first [of st old env ty]
  by blast

text \<open>An audio session started while the camera stream 1 is held; the platform grants stream 2.\<close>

theorem start_stream_single_witness:
  "held_only (holding 1) \<and> streamRef (holding 1) = Some 1 \<and>
   getUserMedia (granting 2) = Some 2 \<and> isMounted (holding 1) \<and> \<not> teardown (granting 2) \<and>
   take 2 (new_events (holding 1) (startStream (granting 2) AudioCapture (holding 1))) =
     [StopTracks 1, GetUserMedia False True] \<and>
   live (startStream (granting 2) AudioCapture (holding 1)) = [2] \<and>
   streamRef (startStream (granting 2) AudioCapture (holding 1)) = Some 2"
  using start_stream_single [of "holding 1" "granting 2" AudioCapture 1 2]
  by (simp add: holding_def idle_def granting_def held_only_def)

text \<open>
  Two starts that overlap, the second requested before the first promise settles, are
  outside the theorem: nothing is held when the second one looks, and both streams
  stay live.
\<close>

lemma overlapping_starts_leak:
  "live (startStream_resume (granting 2) AudioCapture
          (startStream_resume (granting 1) PhotoCapture
             (startStream_request AudioCapture (startStream_request PhotoCapture idle)))) = [1, 2]"
  by (simp add: startStream_resume_fields granting_def idle_def)

end
